theory Spec2Isabelle
  imports Main "HOL-Library.Sublist"
begin

section \<open>Recurrence rules, scheduling and recovery of the Telegram listener\<close>

text \<open>
  This theory embeds the scheduling core of \<^verbatim>\<open>src/telegram_listener.py\<close>:
  \<^verbatim>\<open>normalize_rrule\<close>, \<^verbatim>\<open>parse_rrule_to_interval_kwargs\<close>,
  \<^verbatim>\<open>schedule_job_for_task\<close>, the scheduling part of
  \<^verbatim>\<open>persist_task_and_schedule\<close> and \<^verbatim>\<open>restore_saved_reminders_from_db\<close>.

  A Python \<^verbatim>\<open>str\<close> is a \<^typ>\<open>string\<close>, its characters the code points below
  256. Recurrence rules are ASCII text: \<^verbatim>\<open>upper\<close> is given on the ASCII letters and
  keeps every other character, the digits of \<^verbatim>\<open>int\<close> are the ASCII digits, and
  \<^verbatim>\<open>isspace\<close> is given on all code points below 256. Python's integers are
  \<^typ>\<open>int\<close>.
\<close>

subsection \<open>The string operations of Python used by the code\<close>

text \<open>\<^verbatim>\<open>str.isspace\<close>: tab, line feed, vertical tab, form feed, carriage return, the
  four separators 0x1c..0x1f, the blank, the next-line control 0x85 and the no-break
  space 0xa0.\<close>

definition is_space :: "char \<Rightarrow> bool" where
  "is_space c = (of_char c \<in> {9, 10, 11, 12, 13, 28, 29, 30, 31, 32, 133, 160 :: nat})"

text \<open>\<^verbatim>\<open>s.strip()\<close>\<close>

definition strip :: "string \<Rightarrow> string" where
  "strip s = rev (dropWhile is_space (rev (dropWhile is_space s)))"

text \<open>\<^verbatim>\<open>s.upper()\<close>\<close>

definition upper_char :: "char \<Rightarrow> char" where
  "upper_char c =
     (case map_of (zip ''abcdefghijklmnopqrstuvwxyz'' ''ABCDEFGHIJKLMNOPQRSTUVWXYZ'') c of
        Some u \<Rightarrow> u
      | None \<Rightarrow> c)"

definition upper :: "string \<Rightarrow> string" where
  "upper s = map upper_char s"

text \<open>\<^verbatim>\<open>sub in s\<close> for two strings: \<open>sub\<close> occurs in \<open>s\<close> as a contiguous block.\<close>

fun contains :: "string \<Rightarrow> string \<Rightarrow> bool" where
  "contains sub [] = (sub = [])"
| "contains sub (c # cs) = (prefix sub (c # cs) \<or> contains sub cs)"

text \<open>\<^verbatim>\<open>s.replace(old, new)\<close>: every occurrence of \<open>old\<close>, found from the left and
  not overlapping, becomes \<open>new\<close>. With an empty \<open>old\<close> Python puts \<open>new\<close> before every
  character and at the end.\<close>

function py_replace :: "string \<Rightarrow> string \<Rightarrow> string \<Rightarrow> string" where
  "py_replace old new [] = (if old = [] then new else [])"
| "py_replace old new (c # cs) =
     (if old = [] then new @ c # py_replace old new cs
      else if prefix old (c # cs) then new @ py_replace old new (drop (length old) (c # cs))
      else c # py_replace old new cs)"
  by pat_completeness auto
termination
  by (relation "measure (\<lambda>(old, new, s). length s)") auto

text \<open>\<^verbatim>\<open>s.split(sep)\<close> for a separator of one character.\<close>

fun split_on :: "char \<Rightarrow> string \<Rightarrow> string list" where
  "split_on sep [] = [[]]"
| "split_on sep (c # cs) =
     (if c = sep then [] # split_on sep cs
      else (case split_on sep cs of
              [] \<Rightarrow> [[c]]
            | w # ws \<Rightarrow> (c # w) # ws))"

text \<open>\<^verbatim>\<open>re.sub(r";?UNTIL=[^;]+", "", s)\<close>. A match starts with an optional semicolon,
  then the literal \<^verbatim>\<open>UNTIL=\<close>, then one or more characters other than a semicolon, as
  many as there are. \<open>match_until s\<close> is what is left of \<open>s\<close> behind a match at its
  start.\<close>

definition match_until :: "string \<Rightarrow> string option" where
  "match_until s =
     (let t = (if prefix '';'' s then tl s else s) in
      if prefix ''UNTIL='' t then
        (case drop 6 t of
           [] \<Rightarrow> None
         | d # ds \<Rightarrow> if d = CHR '';'' then None else Some (dropWhile (\<lambda>x. x \<noteq> CHR '';'') ds))
      else None)"

lemma match_until_shorter: "match_until s = Some r \<Longrightarrow> length r < length s"
proof -
  assume a: "match_until s = Some r"
  define t where "t = (if prefix '';'' s then tl s else s)"
  have t: "length t \<le> length s" by (simp add: t_def)
  from a obtain d ds where d: "drop 6 t = d # ds" and r: "r = dropWhile (\<lambda>x. x \<noteq> CHR '';'') ds"
    by (auto simp: match_until_def Let_def t_def split: if_splits list.splits)
  have "length r \<le> length ds" by (simp add: r length_dropWhile_le)
  moreover have "length (drop 6 t) = Suc (length ds)" using d by simp
  ultimately show ?thesis using t by simp
qed

function re_sub_until :: "string \<Rightarrow> string" where
  "re_sub_until [] = []"
| "re_sub_until (c # cs) =
     (case match_until (c # cs) of
        Some r \<Rightarrow> re_sub_until r
      | None \<Rightarrow> c # re_sub_until cs)"
  by pat_completeness auto
termination
  by (relation "measure length") (auto dest: match_until_shorter)

text \<open>\<^verbatim>\<open>int(s)\<close> for a string: white space around the literal is dropped, a sign may
  lead, and the decimal digits may be grouped by single underscores. A literal of more
  digits than \<^verbatim>\<open>sys.get_int_max_str_digits()\<close>, 4300 unless the interpreter is
  configured otherwise, is refused (Python 3.11 and later). \<open>None\<close> stands for the
  \<^verbatim>\<open>ValueError\<close>.\<close>

definition max_str_digits :: nat where
  "max_str_digits = 4300"

definition is_digit :: "char \<Rightarrow> bool" where
  "is_digit c = (c \<in> set ''0123456789'')"

definition digit_val :: "char \<Rightarrow> int" where
  "digit_val c = int (of_char c) - 48"

fun int_digits :: "int \<Rightarrow> string \<Rightarrow> int option" where
  "int_digits acc [] = Some acc"
| "int_digits acc [c] = (if is_digit c then Some (acc * 10 + digit_val c) else None)"
| "int_digits acc (c # d # ds) =
     (if is_digit c then int_digits (acc * 10 + digit_val c) (d # ds)
      else if c = CHR ''_'' \<and> is_digit d then int_digits (acc * 10 + digit_val d) ds
      else None)"

definition int_literal :: "string \<Rightarrow> int option" where
  "int_literal s =
     (if max_str_digits < length (filter is_digit s) then None
      else (case s of
              [] \<Rightarrow> None
            | c # cs \<Rightarrow> if is_digit c then int_digits (digit_val c) cs else None))"

definition py_int :: "string \<Rightarrow> int option" where
  "py_int s =
     (case strip s of
        [] \<Rightarrow> None
      | c # cs \<Rightarrow>
          if c = CHR ''-'' then map_option uminus (int_literal cs)
          else if c = CHR ''+'' then int_literal cs
          else int_literal (c # cs))"

text \<open>\<^verbatim>\<open>str(n)\<close> of an integer, as the f-string of the job id renders it.\<close>

definition digit_char :: "nat \<Rightarrow> char" where
  "digit_char d = ''0123456789'' ! d"

function str_nat :: "nat \<Rightarrow> string" where
  "str_nat n = (if n < 10 then [digit_char n] else str_nat (n div 10) @ [digit_char (n mod 10)])"
  by pat_completeness auto
termination
  by (relation "measure id") auto

declare str_nat.simps [simp del]

definition py_str :: "int \<Rightarrow> string" where
  "py_str i = (if i < 0 then CHR ''-'' # str_nat (nat (- i)) else str_nat (nat i))"

text \<open>A non-empty string of decimal digits.\<close>

definition digits :: "string \<Rightarrow> bool" where
  "digits s = (s \<noteq> [] \<and> list_all is_digit s)"

subsection \<open>Normalising a recurrence rule\<close>

text \<open>\<^verbatim>\<open>normalize_rrule(rr)\<close>: an empty rule is returned as it is; otherwise the rule
  is stripped, the six replacements of frequency spellings are applied in the order of
  the source, \<^verbatim>\<open>EVERYDAY\<close> and every \<^verbatim>\<open>UNTIL=...\<close> qualifier are deleted, and the
  prefix \<^verbatim>\<open>RRULE:\<close> is put in front when it is missing.\<close>

definition normalize_rrule :: "string \<Rightarrow> string" where
  "normalize_rrule rr =
     (if rr = [] then rr
      else
        let rr = strip rr;
            rr = py_replace ''FREQ=MINUTE'' ''FREQ=MINUTELY'' rr;
            rr = py_replace ''FREQ=MINUTES'' ''FREQ=MINUTELY'' rr;
            rr = py_replace ''FREQ=HOUR'' ''FREQ=HOURLY'' rr;
            rr = py_replace ''FREQ=HOURS'' ''FREQ=HOURLY'' rr;
            rr = py_replace ''FREQ=DAY'' ''FREQ=DAILY'' rr;
            rr = py_replace ''FREQ=DAYS'' ''FREQ=DAILY'' rr;
            rr = py_replace ''EVERYDAY'' [] rr;
            rr = re_sub_until rr
        in if prefix ''RRULE:'' rr then rr else ''RRULE:'' @ rr)"

subsection \<open>Parsing a recurrence rule\<close>

text \<open>The scheduler library (APScheduler) is outside the repository. What the code needs
  of it is whether the constructor of a trigger accepts its arguments or raises:
  \<open>cron_accepts L day_of_week hour minute\<close> for
  \<^verbatim>\<open>CronTrigger(day_of_week=.., hour=.., minute=.., timezone=TZ)\<close> and
  \<open>interval_accepts L unit n\<close> for \<^verbatim>\<open>IntervalTrigger(timezone=TZ, unit=n)\<close>.\<close>

datatype time_unit = Seconds | Minutes | Hours | Days | Weeks

record lib =
  cron_accepts :: "string \<Rightarrow> int \<Rightarrow> int \<Rightarrow> bool"
  interval_accepts :: "time_unit \<Rightarrow> int \<Rightarrow> bool"

text \<open>What \<^verbatim>\<open>parse_rrule_to_interval_kwargs\<close> returns when it is not \<^verbatim>\<open>None\<close>: a
  \<^verbatim>\<open>CronTrigger\<close> with its day of week, hour and minute, or the keyword dictionary of
  one entry for an \<^verbatim>\<open>IntervalTrigger\<close>, such as \<^verbatim>\<open>{"days": 2}\<close>.\<close>

datatype kwargs = KwCron string int int | KwInterval time_unit int

text \<open>The loop over \<^verbatim>\<open>rule.split(";")\<close> that fills the dictionary \<^verbatim>\<open>parts\<close>: a
  piece with an equals sign is cut at the first one, key and value are stripped and put
  in upper case, and a later piece overwrites an earlier one with the same key.\<close>

definition put_part :: "(string \<rightharpoonup> string) \<Rightarrow> string \<Rightarrow> (string \<rightharpoonup> string)" where
  "put_part parts kv =
     (if CHR ''='' \<in> set kv then
        parts(upper (strip (takeWhile (\<lambda>x. x \<noteq> CHR ''='') kv)) \<mapsto>
              upper (strip (tl (dropWhile (\<lambda>x. x \<noteq> CHR ''='') kv))))
      else parts)"

definition rrule_parts :: "string \<Rightarrow> (string \<rightharpoonup> string)" where
  "rrule_parts rrule_str =
     foldl put_part Map.empty (split_on CHR '';'' (py_replace ''RRULE:'' [] rrule_str))"

text \<open>Truth of \<^verbatim>\<open>parts.get(key)\<close> in a condition: the key is there and its value is
  not the empty string.\<close>

definition truthy :: "string option \<Rightarrow> bool" where
  "truthy v = (case v of None \<Rightarrow> False | Some s \<Rightarrow> s \<noteq> [])"

text \<open>The table \<^verbatim>\<open>mapping\<close> from a frequency to the keyword of the interval.\<close>

definition mapping_get :: "string \<Rightarrow> int \<Rightarrow> kwargs option" where
  "mapping_get freq interval =
     map_option (\<lambda>u. KwInterval u interval)
       (map_of [(''SECONDLY'', Seconds), (''MINUTELY'', Minutes), (''HOURLY'', Hours),
                (''DAILY'', Days), (''WEEKLY'', Weeks)] freq)"

text \<open>The body of the \<^verbatim>\<open>try\<close> block. \<open>Inl\<close> is an exception raised inside it: by
  \<^verbatim>\<open>int\<close> on a value that is no integer literal, or by the constructor of the
  \<^verbatim>\<open>CronTrigger\<close>.\<close>

datatype py_error = ValueError | JobLookupError | JSONDecodeError

definition parse_rrule_body :: "lib \<Rightarrow> string \<Rightarrow> py_error + kwargs option" where
  "parse_rrule_body L rrule_str =
     (let parts = rrule_parts rrule_str;
          freq = (case parts ''FREQ'' of None \<Rightarrow> ''MINUTELY'' | Some f \<Rightarrow> f)
      in case (case parts ''INTERVAL'' of None \<Rightarrow> Some 1 | Some v \<Rightarrow> py_int v) of
           None \<Rightarrow> Inl ValueError
         | Some interval \<Rightarrow>
             let byhour = parts ''BYHOUR'';
                 byminute = parts ''BYMINUTE'';
                 byday = parts ''BYDAY''
             in if truthy byhour \<or> truthy byminute \<or> truthy byday then
                  (case (if truthy byhour then py_int (the byhour) else Some 9) of
                     None \<Rightarrow> Inl ValueError
                   | Some hour \<Rightarrow>
                       (case (if truthy byminute then py_int (the byminute) else Some 0) of
                          None \<Rightarrow> Inl ValueError
                        | Some minute \<Rightarrow>
                            let day_of_week = (if truthy byday then the byday else ''*'')
                            in if cron_accepts L day_of_week hour minute
                               then Inr (Some (KwCron day_of_week hour minute))
                               else Inl ValueError))
                else Inr (mapping_get freq interval))"

text \<open>\<^verbatim>\<open>parse_rrule_to_interval_kwargs\<close>: the guard on the prefix, then the body with
  every exception turned into \<^verbatim>\<open>None\<close>.\<close>

definition parse_rrule_to_interval_kwargs :: "lib \<Rightarrow> string \<Rightarrow> kwargs option" where
  "parse_rrule_to_interval_kwargs L rrule_str =
     (if rrule_str = [] then None
      else if prefix ''RRULE:'' rrule_str then
        (case parse_rrule_body L rrule_str of
           Inl e \<Rightarrow> None
         | Inr r \<Rightarrow> r)
      else None)"

subsection \<open>The job store of the scheduler\<close>

text \<open>A trigger of the scheduler library: \<^verbatim>\<open>DateTrigger(run_date=..)\<close> fires once,
  \<^verbatim>\<open>IntervalTrigger\<close> with its keyword and \<^verbatim>\<open>CronTrigger\<close> with day of week,
  hour and minute repeat. A point in time is a number of seconds.\<close>

datatype trigger = DateTrigger int | IntervalTrigger time_unit int | CronTrigger string int int

text \<open>A job of the scheduler: its id, its trigger and the \<^verbatim>\<open>params\<close> that the
  closure \<^verbatim>\<open>_run_plan\<close> has captured.\<close>

record 'p job =
  job_id :: string
  trigger :: trigger
  payload :: 'p

text \<open>The store of the global \<^verbatim>\<open>scheduler\<close> is the list of its jobs.
  \<^verbatim>\<open>scheduler.get_job(id)\<close> returns the job or \<^verbatim>\<open>None\<close>,
  \<^verbatim>\<open>scheduler.remove_job(id)\<close> raises \<^verbatim>\<open>JobLookupError\<close> when there is none, and
  \<^verbatim>\<open>scheduler.add_job(.., id=.., replace_existing=True)\<close> takes the place of a job
  with the same id or else adds the job.\<close>

definition get_job :: "string \<Rightarrow> 'p job list \<Rightarrow> 'p job option" where
  "get_job jid jobs = find (\<lambda>j. job_id j = jid) jobs"

definition remove_job :: "string \<Rightarrow> 'p job list \<Rightarrow> py_error + 'p job list" where
  "remove_job jid jobs =
     (if jid \<in> set (map job_id jobs) then Inr (filter (\<lambda>j. job_id j \<noteq> jid) jobs)
      else Inl JobLookupError)"

definition add_job :: "'p job \<Rightarrow> 'p job list \<Rightarrow> 'p job list" where
  "add_job new jobs =
     (if job_id new \<in> set (map job_id jobs)
      then map (\<lambda>j. if job_id j = job_id new then new else j) jobs
      else jobs @ [new])"

text \<open>The number of live jobs with a given id.\<close>

definition live_jobs :: "string \<Rightarrow> 'p job list \<Rightarrow> 'p job list" where
  "live_jobs jid jobs = filter (\<lambda>j. job_id j = jid) jobs"

subsection \<open>Scheduling a task\<close>

text \<open>\<^verbatim>\<open>schedule_job_for_task(task_id, params, schedule_rule)\<close> at the clock reading
  \<open>now\<close>, on the store \<open>jobs\<close>. The lookup and the removal of an existing job stand
  before the \<^verbatim>\<open>try\<close>: an exception there leaves the function (\<open>Inl\<close>). Inside the
  \<^verbatim>\<open>try\<close> the only call that can raise on a string is the constructor of the
  \<^verbatim>\<open>IntervalTrigger\<close>; the handler then returns \<^verbatim>\<open>False\<close> and no job is added.
  The result is the returned flag and the store.\<close>

definition reminder_id :: "int \<Rightarrow> string" where
  "reminder_id task_id = ''reminder-'' @ py_str task_id"

definition schedule_job_for_task ::
  "lib \<Rightarrow> int \<Rightarrow> int \<Rightarrow> 'p \<Rightarrow> string \<Rightarrow> 'p job list \<Rightarrow> py_error + (bool \<times> 'p job list)" where
  "schedule_job_for_task L now task_id params schedule_rule jobs =
     (let jid = reminder_id task_id in
      case (case get_job jid jobs of
              None \<Rightarrow> Inr jobs
            | Some existing \<Rightarrow> remove_job jid jobs) of
        Inl e \<Rightarrow> Inl e
      | Inr jobs \<Rightarrow>
          Inr (if contains ''FREQ=ONCE'' schedule_rule then
                 (True, add_job \<lparr>job_id = jid, trigger = DateTrigger (now + 60),
                                 payload = params\<rparr> jobs)
               else
                 (case parse_rrule_to_interval_kwargs L schedule_rule of
                    Some (KwCron d h m) \<Rightarrow>
                      (True, add_job \<lparr>job_id = jid, trigger = CronTrigger d h m,
                                      payload = params\<rparr> jobs)
                  | Some (KwInterval u n) \<Rightarrow>
                      if interval_accepts L u n then
                        (True, add_job \<lparr>job_id = jid, trigger = IntervalTrigger u n,
                                        payload = params\<rparr> jobs)
                      else (False, jobs)
                  | None \<Rightarrow>
                      (True, add_job \<lparr>job_id = jid, trigger = DateTrigger (now + 60),
                                      payload = params\<rparr> jobs))))"

subsection \<open>Registering a task and restoring the saved tasks\<close>

text \<open>\<^verbatim>\<open>persist_task_and_schedule\<close>, from the insertion of the task on. \<open>plan_rule\<close> is
  \<^verbatim>\<open>plan_obj.get("schedule_rule")\<close>, \<open>None\<close> when the plan has no such key. The rule
  written to the table is the rule of the plan as it is (or the default of the source),
  the rule that is scheduled is the normalised one (or the normalised empty string).
  The id \<open>tid\<close> is the row id that the insertion returns. The result is the stored rule
  and the outcome of the scheduling.\<close>

definition persist_task_and_schedule ::
  "lib \<Rightarrow> int \<Rightarrow> int \<Rightarrow> 'p \<Rightarrow> string option \<Rightarrow> 'p job list
     \<Rightarrow> string \<times> (py_error + (bool \<times> 'p job list))" where
  "persist_task_and_schedule L now tid internal plan_rule jobs =
     (let stored = (case plan_rule of None \<Rightarrow> ''RRULE:FREQ=MINUTELY;INTERVAL=1'' | Some r \<Rightarrow> r);
          rule = normalize_rrule (case plan_rule of None \<Rightarrow> [] | Some r \<Rightarrow> r)
      in (stored, schedule_job_for_task L now tid internal rule jobs))"

text \<open>A row of \<^verbatim>\<open>SELECT id, params_json, schedule_rule FROM task WHERE enabled=1\<close>. The
  column \<^verbatim>\<open>params_json\<close> is a text, which \<^verbatim>\<open>json.loads\<close> has to decode, or a value
  of another type, which is passed on as it is; the rule is a text or \<^verbatim>\<open>NULL\<close>.\<close>

datatype 'p column = Text string | Value 'p

record 'p task_row =
  row_id :: int
  params_json :: "'p column"
  schedule_rule :: "string option"

text \<open>The loop of \<^verbatim>\<open>restore_saved_reminders_from_db\<close> over the rows. \<open>loads\<close> is
  \<^verbatim>\<open>json.loads\<close>, \<open>None\<close> where it raises; \<open>clock i\<close> is the reading of the clock
  while row number \<open>i\<close> is scheduled. The one \<^verbatim>\<open>try\<close> of the source encloses the
  whole loop: an exception ends the loop, with the store as it is at that moment.\<close>

definition load_params :: "(string \<Rightarrow> 'p option) \<Rightarrow> 'p task_row \<Rightarrow> 'p option" where
  "load_params loads r = (case params_json r of Text t \<Rightarrow> loads t | Value v \<Rightarrow> Some v)"

text \<open>\<^verbatim>\<open>rule or ""\<close>\<close>

definition row_rule :: "'p task_row \<Rightarrow> string" where
  "row_rule r = (case schedule_rule r of None \<Rightarrow> [] | Some rule \<Rightarrow> rule)"

fun restore_rows ::
  "lib \<Rightarrow> (string \<Rightarrow> 'p option) \<Rightarrow> (nat \<Rightarrow> int) \<Rightarrow> nat \<Rightarrow> 'p task_row list \<Rightarrow> 'p job list
     \<Rightarrow> py_error option \<times> 'p job list" where
  "restore_rows L loads clock i [] jobs = (None, jobs)"
| "restore_rows L loads clock i (r # rs) jobs =
     (case load_params loads r of
        None \<Rightarrow> (Some JSONDecodeError, jobs)
      | Some params \<Rightarrow>
          (case schedule_job_for_task L (clock i) (row_id r) params (row_rule r) jobs of
             Inl e \<Rightarrow> (Some e, jobs)
           | Inr (ok, jobs') \<Rightarrow> restore_rows L loads clock (Suc i) rs jobs'))"

text \<open>\<^verbatim>\<open>restore_saved_reminders_from_db\<close>: the handler prints the exception, and the
  store stays as the loop left it.\<close>

definition restore_saved_reminders_from_db ::
  "lib \<Rightarrow> (string \<Rightarrow> 'p option) \<Rightarrow> (nat \<Rightarrow> int) \<Rightarrow> 'p task_row list \<Rightarrow> 'p job list \<Rightarrow> 'p job list" where
  "restore_saved_reminders_from_db L loads clock rows jobs =
     snd (restore_rows L loads clock 0 rows jobs)"

subsection \<open>Sample instances for running the definitions\<close>

text \<open>An instance of the library. The \<^verbatim>\<open>CronTrigger\<close> takes hours from 0 to 23,
  minutes from 0 to 59, and as day of week the star, a number from 0 to 6 or a
  three-letter name of a weekday in either case; the two-letter codes of a \<^verbatim>\<open>BYDAY\<close>
  (\<^verbatim>\<open>MO\<close>, \<^verbatim>\<open>TU\<close>, ...) are no such names. The \<^verbatim>\<open>IntervalTrigger\<close> adds the
  interval to the current time, which has to stay a date between the years 1 and 9999:
  the instance takes the intervals between 700000 days back and 2900000 days ahead.\<close>

definition unit_seconds :: "time_unit \<Rightarrow> int" where
  "unit_seconds u =
     (case u of Seconds \<Rightarrow> 1 | Minutes \<Rightarrow> 60 | Hours \<Rightarrow> 3600 | Days \<Rightarrow> 86400 | Weeks \<Rightarrow> 604800)"

definition sample_lib :: lib where
  "sample_lib =
     \<lparr>cron_accepts = (\<lambda>d h m.
        d \<in> set [''*'', ''0'', ''1'', ''2'', ''3'', ''4'', ''5'', ''6'',
                   ''MON'', ''TUE'', ''WED'', ''THU'', ''FRI'', ''SAT'', ''SUN''] \<and>
        0 \<le> h \<and> h \<le> 23 \<and> 0 \<le> m \<and> m \<le> 59),
      interval_accepts = (\<lambda>u n.
        - (700000 * 86400) < n * unit_seconds u \<and> n * unit_seconds u < 2900000 * 86400)\<rparr>"

text \<open>A stand-in for \<^verbatim>\<open>json.loads\<close>: it accepts the texts enclosed in braces and
  returns them as they are, and raises on every other text.\<close>

definition sample_loads :: "string \<Rightarrow> string option" where
  "sample_loads t = (if prefix ''{'' t \<and> prefix ''}'' (rev t) then Some t else None)"

text \<open>A clock: the reading at row \<open>i\<close> of the recovery.\<close>

definition sample_clock :: "nat \<Rightarrow> int" where
  "sample_clock i = 1000 + int i"

section \<open>Properties\<close>

subsection \<open>The store\<close>

lemma get_job_None: "get_job jid jobs = None \<longleftrightarrow> jid \<notin> set (map job_id jobs)"
  by (auto simp: get_job_def find_None_iff)

lemma cancel_existing:
  "(case get_job jid jobs of None \<Rightarrow> Inr jobs | Some existing \<Rightarrow> remove_job jid jobs)
     = Inr (filter (\<lambda>j. job_id j \<noteq> jid) jobs)"
proof (cases "get_job jid jobs")
  case None
  then have "jid \<notin> set (map job_id jobs)" by (simp add: get_job_None)
  then have "filter (\<lambda>j. job_id j \<noteq> jid) jobs = jobs" by (auto simp: filter_id_conv)
  with None show ?thesis by simp
next
  case (Some j)
  then have "jid \<in> set (map job_id jobs)" using get_job_None [of jid jobs] by auto
  with Some show ?thesis by (simp add: remove_job_def)
qed

lemma add_job_fresh:
  "job_id new = jid \<Longrightarrow> add_job new (filter (\<lambda>j. job_id j \<noteq> jid) jobs)
     = filter (\<lambda>j. job_id j \<noteq> jid) jobs @ [new]"
  by (auto simp: add_job_def)

lemma live_jobs_fresh:
  "job_id new = jid \<Longrightarrow> live_jobs jid (filter (\<lambda>j. job_id j \<noteq> jid) jobs @ [new]) = [new]"
  by (induction jobs) (auto simp: live_jobs_def)

text \<open>What a call of \<^verbatim>\<open>schedule_job_for_task\<close> does to the store: the jobs of other
  ids stay, in their order, and the job of this id, if one is made, comes last.\<close>

lemma schedule_job_for_task_eq:
  "schedule_job_for_task L now task_id params rule jobs =
     (let jid = reminder_id task_id;
          rest = filter (\<lambda>j. job_id j \<noteq> jid) jobs;
          once = \<lparr>job_id = jid, trigger = DateTrigger (now + 60), payload = params\<rparr>
      in Inr (if contains ''FREQ=ONCE'' rule then (True, rest @ [once])
              else (case parse_rrule_to_interval_kwargs L rule of
                      Some (KwCron d h m) \<Rightarrow>
                        (True, rest @ [\<lparr>job_id = jid, trigger = CronTrigger d h m,
                                         payload = params\<rparr>])
                    | Some (KwInterval u n) \<Rightarrow>
                        if interval_accepts L u n then
                          (True, rest @ [\<lparr>job_id = jid, trigger = IntervalTrigger u n,
                                           payload = params\<rparr>])
                        else (False, rest)
                    | None \<Rightarrow> (True, rest @ [once]))))"
  unfolding schedule_job_for_task_def Let_def cancel_existing
  by (simp add: add_job_fresh split: option.splits kwargs.splits)

lemma live_jobs_rest: "live_jobs jid (filter (\<lambda>j. job_id j \<noteq> jid) jobs) = []"
  by (induction jobs) (auto simp: live_jobs_def)

text \<open>Unfolding sets for running the definitions on concrete rules.\<close>

lemmas parse_eval = parse_rrule_to_interval_kwargs_def parse_rrule_body_def rrule_parts_def
  put_part_def strip_def is_space_def upper_def upper_char_def py_int_def int_literal_def
  max_str_digits_def is_digit_def digit_val_def truthy_def mapping_get_def

lemmas schedule_eval = schedule_job_for_task_def get_job_def remove_job_def add_job_def
  reminder_id_def py_str_def str_nat.simps digit_char_def sample_lib_def unit_seconds_def
  live_jobs_def

lemma reminder_id_7: "reminder_id 7 = ''reminder-7''"
  by (simp add: reminder_id_def py_str_def str_nat.simps digit_char_def)

subsection \<open>Rules without the prefix\<close>

text \<open>Claim C10. For every string that is empty or does not begin with the prefix
  \<^verbatim>\<open>RRULE:\<close>, \<^verbatim>\<open>parse_rrule_to_interval_kwargs\<close> returns \<^verbatim>\<open>None\<close>, and
  \<^verbatim>\<open>schedule_job_for_task\<close> then installs the one-shot fallback, a
  \<^verbatim>\<open>DateTrigger\<close> sixty seconds after the clock reading, whatever recurrence the rule
  describes.\<close>

theorem unprefixed_rule_is_unparseable:
  assumes "rule = [] \<or> \<not> prefix ''RRULE:'' rule"
  shows "parse_rrule_to_interval_kwargs L rule = None \<and>
         schedule_job_for_task L now task_id params rule jobs =
           Inr (True, filter (\<lambda>j. job_id j \<noteq> reminder_id task_id) jobs @
                        [\<lparr>job_id = reminder_id task_id, trigger = DateTrigger (now + 60),
                          payload = params\<rparr>])"
proof -
  have p: "parse_rrule_to_interval_kwargs L rule = None"
    using assms by (auto simp: parse_rrule_to_interval_kwargs_def)
  then show ?thesis
    by (simp add: schedule_job_for_task_eq Let_def)
qed

theorem unprefixed_rule_is_unparseable_witness:
  "(''FREQ=DAILY;INTERVAL=2'' = [] \<or> \<not> prefix ''RRULE:'' ''FREQ=DAILY;INTERVAL=2'') \<and>
   parse_rrule_to_interval_kwargs sample_lib ''FREQ=DAILY;INTERVAL=2'' = None \<and>
   schedule_job_for_task sample_lib 1000 7 ''hello'' ''FREQ=DAILY;INTERVAL=2'' [] =
     Inr (True, [\<lparr>job_id = ''reminder-7'', trigger = DateTrigger 1060, payload = ''hello''\<rparr>])"
proof -
  have h: "''FREQ=DAILY;INTERVAL=2'' = [] \<or> \<not> prefix ''RRULE:'' ''FREQ=DAILY;INTERVAL=2''"
    by simp
  show ?thesis
    using h unprefixed_rule_is_unparseable [OF h, of sample_lib 1000 7 "''hello''" "[]"]
    by (simp add: reminder_id_7)
qed

subsection \<open>One-shot rules\<close>

text \<open>Claim C6. For every rule that contains \<^verbatim>\<open>FREQ=ONCE\<close>, whatever else it carries
  (a \<^verbatim>\<open>RUN_AT\<close> timestamp for one), \<^verbatim>\<open>schedule_job_for_task\<close> returns
  \<^verbatim>\<open>True\<close>, and afterwards the store holds exactly one job for the task id: a
  \<^verbatim>\<open>DateTrigger\<close> at the clock reading plus sixty seconds.\<close>

theorem once_rule_fires_after_sixty_seconds:
  assumes "contains ''FREQ=ONCE'' rule"
  shows "\<exists>jobs'. schedule_job_for_task L now task_id params rule jobs = Inr (True, jobs') \<and>
           live_jobs (reminder_id task_id) jobs' =
             [\<lparr>job_id = reminder_id task_id, trigger = DateTrigger (now + 60),
               payload = params\<rparr>]"
  using assms by (simp add: schedule_job_for_task_eq Let_def live_jobs_fresh)

theorem once_rule_fires_after_sixty_seconds_witness:
  "contains ''FREQ=ONCE'' ''RRULE:FREQ=ONCE;RUN_AT=2025-01-01T10:00:00'' \<and>
   (\<exists>jobs'. schedule_job_for_task sample_lib 1000 7 ''hello''
               ''RRULE:FREQ=ONCE;RUN_AT=2025-01-01T10:00:00''
               [\<lparr>job_id = ''reminder-7'', trigger = IntervalTrigger Hours 1, payload = ''old''\<rparr>]
             = Inr (True, jobs') \<and>
            live_jobs ''reminder-7'' jobs' =
              [\<lparr>job_id = ''reminder-7'', trigger = DateTrigger 1060, payload = ''hello''\<rparr>])"
proof -
  have h: "contains ''FREQ=ONCE'' ''RRULE:FREQ=ONCE;RUN_AT=2025-01-01T10:00:00''"
    by simp
  show ?thesis
    using h once_rule_fires_after_sixty_seconds [OF h, of sample_lib 1000 7 "''hello''"
      "[\<lparr>job_id = ''reminder-7'', trigger = IntervalTrigger Hours 1, payload = ''old''\<rparr>]"]
    by (simp add: reminder_id_7)
qed

subsection \<open>Scheduling never raises, and the fallback\<close>

text \<open>Claim C7, as the code has it. For every string given as the rule (the empty
  string, garbage, a rule without \<^verbatim>\<open>FREQ\<close>), \<^verbatim>\<open>schedule_job_for_task\<close> raises no
  exception: it returns a flag, and the store then holds exactly one job for the task
  id when the flag is \<^verbatim>\<open>True\<close> and none when it is \<^verbatim>\<open>False\<close>. The flag is
  \<^verbatim>\<open>False\<close> exactly when the rule does not contain \<^verbatim>\<open>FREQ=ONCE\<close> and resolves to
  an interval that the constructor of the \<^verbatim>\<open>IntervalTrigger\<close> rejects. When the parser
  resolves no trigger (\<^verbatim>\<open>None\<close>), the call returns \<^verbatim>\<open>True\<close> and the one job of the
  task id is a \<^verbatim>\<open>DateTrigger\<close> at the clock reading plus sixty seconds.\<close>

theorem schedule_never_raises_and_falls_back:
  "(\<exists>ok jobs'. schedule_job_for_task L now task_id params rule jobs = Inr (ok, jobs') \<and>
       length (live_jobs (reminder_id task_id) jobs') = (if ok then 1 else 0) \<and>
       ok = (contains ''FREQ=ONCE'' rule \<or>
             (\<forall>u n. parse_rrule_to_interval_kwargs L rule = Some (KwInterval u n) \<longrightarrow>
                    interval_accepts L u n))) \<and>
   (parse_rrule_to_interval_kwargs L rule = None \<longrightarrow>
      (\<exists>jobs'. schedule_job_for_task L now task_id params rule jobs = Inr (True, jobs') \<and>
         live_jobs (reminder_id task_id) jobs' =
           [\<lparr>job_id = reminder_id task_id, trigger = DateTrigger (now + 60),
             payload = params\<rparr>]))"
  by (auto simp add: schedule_job_for_task_eq Let_def live_jobs_fresh live_jobs_rest
      split: option.splits kwargs.splits)

theorem schedule_never_raises_and_falls_back_witness:
  "parse_rrule_to_interval_kwargs sample_lib ''every now and then'' = None \<and>
   (\<exists>jobs'. schedule_job_for_task sample_lib 1000 7 ''hello'' ''every now and then'' []
        = Inr (True, jobs') \<and>
      live_jobs ''reminder-7'' jobs' =
        [\<lparr>job_id = ''reminder-7'', trigger = DateTrigger 1060, payload = ''hello''\<rparr>])"
proof -
  have h: "parse_rrule_to_interval_kwargs sample_lib ''every now and then'' = None"
    by (simp add: parse_rrule_to_interval_kwargs_def)
  show ?thesis
    using h schedule_never_raises_and_falls_back [of sample_lib 1000 7 "''hello''"
       "''every now and then''" "[]"]
    by (simp add: reminder_id_7)
qed

text \<open>The claim as the specification words it fails at
  \<^verbatim>\<open>RRULE:FREQ=DAILY;INTERVAL=3000000\<close>: the interval leads beyond the year 9999, the
  constructor raises, the handler returns \<^verbatim>\<open>False\<close>, and the task is left without a
  job, the one it had being removed before.\<close>

theorem rejected_interval_leaves_no_job_counterexample:
  "schedule_job_for_task sample_lib 1000 7 ''hello'' ''RRULE:FREQ=DAILY;INTERVAL=3000000''
     [\<lparr>job_id = ''reminder-7'', trigger = IntervalTrigger Hours 1, payload = ''old''\<rparr>] =
   Inr (False, [])"
  by (simp add: parse_eval schedule_eval)

subsection \<open>Scheduling a task id again\<close>

text \<open>Claim C8, as the code has it. Two calls of \<^verbatim>\<open>schedule_job_for_task\<close> with the
  same task id: the second call first removes the job that the first one left, so that
  no job of the id is live when the new one is added. When the second call returns
  \<^verbatim>\<open>True\<close>, exactly one job of the id is live afterwards, and it is the job that the
  second call alone installs in an empty store (its trigger and its payload); when it
  returns \<^verbatim>\<open>False\<close>, no job of the id is live. Two jobs of the id are never live
  together, and the jobs of the other ids are those from before the two calls.\<close>

theorem reschedule_replaces_job:
  assumes "schedule_job_for_task L now1 task_id params1 rule1 jobs = Inr (ok1, jobs1)"
      and "schedule_job_for_task L now2 task_id params2 rule2 jobs1 = Inr (ok2, jobs2)"
  shows "(\<exists>mid. (case get_job (reminder_id task_id) jobs1 of
                    None \<Rightarrow> Inr jobs1
                  | Some existing \<Rightarrow> remove_job (reminder_id task_id) jobs1) = Inr mid \<and>
                live_jobs (reminder_id task_id) mid = []) \<and>
         (ok2 \<longrightarrow> (\<exists>j. live_jobs (reminder_id task_id) jobs2 = [j] \<and>
               schedule_job_for_task L now2 task_id params2 rule2 [] = Inr (True, [j]))) \<and>
         (\<not> ok2 \<longrightarrow> live_jobs (reminder_id task_id) jobs2 = []) \<and>
         length (live_jobs (reminder_id task_id) jobs2) \<le> 1 \<and>
         filter (\<lambda>j. job_id j \<noteq> reminder_id task_id) jobs2 =
           filter (\<lambda>j. job_id j \<noteq> reminder_id task_id) jobs"
  using assms unfolding cancel_existing
  by (auto simp add: schedule_job_for_task_eq Let_def live_jobs_fresh live_jobs_rest
      split: option.splits kwargs.splits if_splits)

theorem reschedule_replaces_job_witness:
  "schedule_job_for_task sample_lib 1000 7 ''a'' ''RRULE:FREQ=HOURLY;INTERVAL=1'' [] =
     Inr (True, [\<lparr>job_id = ''reminder-7'', trigger = IntervalTrigger Hours 1, payload = ''a''\<rparr>]) \<and>
   schedule_job_for_task sample_lib 2000 7 ''b'' ''RRULE:FREQ=DAILY;BYHOUR=7''
       [\<lparr>job_id = ''reminder-7'', trigger = IntervalTrigger Hours 1, payload = ''a''\<rparr>] =
     Inr (True, [\<lparr>job_id = ''reminder-7'', trigger = CronTrigger ''*'' 7 0, payload = ''b''\<rparr>]) \<and>
   live_jobs ''reminder-7''
       [\<lparr>job_id = ''reminder-7'', trigger = CronTrigger ''*'' 7 0, payload = ''b''\<rparr>] =
     [\<lparr>job_id = ''reminder-7'', trigger = CronTrigger ''*'' 7 0, payload = ''b''\<rparr>]"
proof -
  have h1: "schedule_job_for_task sample_lib 1000 7 ''a'' ''RRULE:FREQ=HOURLY;INTERVAL=1'' [] =
     Inr (True, [\<lparr>job_id = ''reminder-7'', trigger = IntervalTrigger Hours 1, payload = ''a''\<rparr>])"
    by (simp add: parse_eval schedule_eval)
  have h2: "schedule_job_for_task sample_lib 2000 7 ''b'' ''RRULE:FREQ=DAILY;BYHOUR=7''
       [\<lparr>job_id = ''reminder-7'', trigger = IntervalTrigger Hours 1, payload = ''a''\<rparr>] =
     Inr (True, [\<lparr>job_id = ''reminder-7'', trigger = CronTrigger ''*'' 7 0, payload = ''b''\<rparr>])"
    by (simp add: parse_eval schedule_eval)
  show ?thesis
    using h1 h2 reschedule_replaces_job [OF h1 h2]
    by (simp add: reminder_id_7 live_jobs_def)
qed

text \<open>The claim as the specification words it fails when the second call is made with
  \<^verbatim>\<open>RRULE:FREQ=DAILY;INTERVAL=3000000\<close>: the job of the first call is removed, the
  constructor of the \<^verbatim>\<open>IntervalTrigger\<close> raises, and no job of the id is left.\<close>

theorem failed_reschedule_leaves_no_job_counterexample:
  "schedule_job_for_task sample_lib 1000 7 ''a'' ''RRULE:FREQ=HOURLY;INTERVAL=1'' [] =
     Inr (True, [\<lparr>job_id = ''reminder-7'', trigger = IntervalTrigger Hours 1, payload = ''a''\<rparr>]) \<and>
   schedule_job_for_task sample_lib 2000 7 ''b'' ''RRULE:FREQ=DAILY;INTERVAL=3000000''
       [\<lparr>job_id = ''reminder-7'', trigger = IntervalTrigger Hours 1, payload = ''a''\<rparr>] =
     Inr (False, [])"
  by (simp add: parse_eval schedule_eval)

subsection \<open>Unrecognised frequencies\<close>

text \<open>Claim C3, as the code has it. For every rule whose parts carry no non-empty
  \<^verbatim>\<open>BYHOUR\<close>, \<^verbatim>\<open>BYMINUTE\<close> or \<^verbatim>\<open>BYDAY\<close> and whose \<^verbatim>\<open>FREQ\<close> is none of
  \<^verbatim>\<open>SECONDLY\<close>, \<^verbatim>\<open>MINUTELY\<close>, \<^verbatim>\<open>HOURLY\<close>, \<^verbatim>\<open>DAILY\<close>, \<^verbatim>\<open>WEEKLY\<close>, the
  parser returns \<^verbatim>\<open>None\<close> and \<^verbatim>\<open>schedule_job_for_task\<close> installs the one-shot
  fallback, a \<^verbatim>\<open>DateTrigger\<close> at the clock reading plus sixty seconds; there is no
  default of one hour.\<close>

theorem unrecognized_freq_falls_back_to_once:
  assumes "\<not> truthy (rrule_parts rule ''BYHOUR'')"
      and "\<not> truthy (rrule_parts rule ''BYMINUTE'')"
      and "\<not> truthy (rrule_parts rule ''BYDAY'')"
      and "rrule_parts rule ''FREQ'' = Some freq"
      and "freq \<notin> {''SECONDLY'', ''MINUTELY'', ''HOURLY'', ''DAILY'', ''WEEKLY''}"
  shows "parse_rrule_to_interval_kwargs L rule = None \<and>
         schedule_job_for_task L now task_id params rule jobs =
           Inr (True, filter (\<lambda>j. job_id j \<noteq> reminder_id task_id) jobs @
                        [\<lparr>job_id = reminder_id task_id, trigger = DateTrigger (now + 60),
                          payload = params\<rparr>])"
proof -
  have m: "mapping_get freq n = None" for n
    using assms(5) by (simp add: mapping_get_def)
  have "parse_rrule_body L rule = Inl ValueError \<or> parse_rrule_body L rule = Inr None"
    using assms(1-4) m by (simp add: parse_rrule_body_def Let_def split: option.splits)
  then have p: "parse_rrule_to_interval_kwargs L rule = None"
    by (auto simp: parse_rrule_to_interval_kwargs_def)
  then show ?thesis
    by (simp add: schedule_job_for_task_eq Let_def)
qed

theorem unrecognized_freq_falls_back_to_once_witness:
  "\<not> truthy (rrule_parts ''RRULE:FREQ=YEARLY;INTERVAL=2'' ''BYHOUR'') \<and>
   \<not> truthy (rrule_parts ''RRULE:FREQ=YEARLY;INTERVAL=2'' ''BYMINUTE'') \<and>
   \<not> truthy (rrule_parts ''RRULE:FREQ=YEARLY;INTERVAL=2'' ''BYDAY'') \<and>
   rrule_parts ''RRULE:FREQ=YEARLY;INTERVAL=2'' ''FREQ'' = Some ''YEARLY'' \<and>
   ''YEARLY'' \<notin> {''SECONDLY'', ''MINUTELY'', ''HOURLY'', ''DAILY'', ''WEEKLY''} \<and>
   parse_rrule_to_interval_kwargs sample_lib ''RRULE:FREQ=YEARLY;INTERVAL=2'' = None \<and>
   schedule_job_for_task sample_lib 1000 7 ''hello'' ''RRULE:FREQ=YEARLY;INTERVAL=2'' [] =
     Inr (True, [\<lparr>job_id = ''reminder-7'', trigger = DateTrigger 1060, payload = ''hello''\<rparr>])"
proof -
  have h1: "\<not> truthy (rrule_parts ''RRULE:FREQ=YEARLY;INTERVAL=2'' ''BYHOUR'')"
    by (simp add: parse_eval)
  have h2: "\<not> truthy (rrule_parts ''RRULE:FREQ=YEARLY;INTERVAL=2'' ''BYMINUTE'')"
    by (simp add: parse_eval)
  have h3: "\<not> truthy (rrule_parts ''RRULE:FREQ=YEARLY;INTERVAL=2'' ''BYDAY'')"
    by (simp add: parse_eval)
  have h4: "rrule_parts ''RRULE:FREQ=YEARLY;INTERVAL=2'' ''FREQ'' = Some ''YEARLY''"
    by (simp add: parse_eval)
  have h5: "''YEARLY'' \<notin> {''SECONDLY'', ''MINUTELY'', ''HOURLY'', ''DAILY'', ''WEEKLY''}"
    by simp
  show ?thesis
    using h1 h2 h3 h4 h5
      unrecognized_freq_falls_back_to_once [OF h1 h2 h3 h4 h5, of sample_lib 1000 7 "''hello''" "[]"]
    by (simp add: reminder_id_7)
qed

text \<open>The claim as the specification words it fails at \<^verbatim>\<open>RRULE:FREQ=YEARLY;INTERVAL=2\<close>:
  the job that is installed is the one-shot fallback, not an interval of one hour.\<close>

theorem unrecognized_freq_not_hourly_counterexample:
  "rrule_parts ''RRULE:FREQ=YEARLY;INTERVAL=2'' ''FREQ'' = Some ''YEARLY'' \<and>
   schedule_job_for_task sample_lib 1000 7 ''hello'' ''RRULE:FREQ=YEARLY;INTERVAL=2'' [] =
     Inr (True, [\<lparr>job_id = ''reminder-7'', trigger = DateTrigger 1060, payload = ''hello''\<rparr>]) \<and>
   schedule_job_for_task sample_lib 1000 7 ''hello'' ''RRULE:FREQ=YEARLY;INTERVAL=2'' [] \<noteq>
     Inr (True, [\<lparr>job_id = ''reminder-7'', trigger = IntervalTrigger Hours 1, payload = ''hello''\<rparr>])"
  by (simp add: parse_eval schedule_eval)

subsection \<open>Decimal numerals\<close>

lemma digit_char_props:
  assumes "d < 10"
  shows "is_digit (digit_char d) \<and> digit_val (digit_char d) = int d"
proof -
  from assms have "d = 0 \<or> d = 1 \<or> d = 2 \<or> d = 3 \<or> d = 4 \<or> d = 5 \<or> d = 6 \<or> d = 7 \<or> d = 8 \<or> d = 9"
    by arith
  then show ?thesis
    by (elim disjE) (simp_all add: is_digit_def digit_char_def digit_val_def)
qed

lemma digit_plain:
  assumes "is_digit c"
  shows "\<not> is_space c" and "upper_char c = c" and "c \<noteq> CHR ''-''" and "c \<noteq> CHR ''+''"
    and "c \<noteq> CHR '';''" and "c \<noteq> CHR ''=''" and "CHR ''='' \<noteq> c" and "CHR ''R'' \<noteq> c"
proof -
  from assms have "c = CHR ''0'' \<or> c = CHR ''1'' \<or> c = CHR ''2'' \<or> c = CHR ''3'' \<or>
      c = CHR ''4'' \<or> c = CHR ''5'' \<or> c = CHR ''6'' \<or> c = CHR ''7'' \<or> c = CHR ''8'' \<or>
      c = CHR ''9''"
    by (simp add: is_digit_def)
  then have "\<not> is_space c \<and> upper_char c = c \<and> c \<noteq> CHR ''-'' \<and> c \<noteq> CHR ''+'' \<and>
         c \<noteq> CHR '';'' \<and> c \<noteq> CHR ''='' \<and> c \<noteq> CHR ''R''"
    by (elim disjE) (simp_all add: is_space_def upper_char_def)
  then show "\<not> is_space c" and "upper_char c = c" and "c \<noteq> CHR ''-''" and "c \<noteq> CHR ''+''"
    and "c \<noteq> CHR '';''" and "c \<noteq> CHR ''=''" and "CHR ''='' \<noteq> c" and "CHR ''R'' \<noteq> c"
    by auto
qed

lemma digits_str_nat: "digits (str_nat n)"
proof (induction n rule: str_nat.induct)
  case (1 n)
  show ?case
  proof (cases "n < 10")
    case True
    then show ?thesis by (subst str_nat.simps) (simp add: digits_def digit_char_props)
  next
    case False
    with 1 have "digits (str_nat (n div 10))" by simp
    moreover have "is_digit (digit_char (n mod 10))" by (simp add: digit_char_props)
    ultimately show ?thesis using False
      by (subst str_nat.simps) (simp add: digits_def)
  qed
qed

lemma int_digits_foldl:
  "list_all is_digit ds \<Longrightarrow> int_digits acc ds = Some (foldl (\<lambda>a c. a * 10 + digit_val c) acc ds)"
  by (induction acc ds rule: int_digits.induct) simp_all

lemma foldl_str_nat: "foldl (\<lambda>a c. a * 10 + digit_val c) 0 (str_nat n) = int n"
proof (induction n rule: str_nat.induct)
  case (1 n)
  show ?case
  proof (cases "n < 10")
    case True
    then show ?thesis by (subst str_nat.simps) (simp add: digit_char_props)
  next
    case False
    with 1 have "foldl (\<lambda>a c. a * 10 + digit_val c) 0 (str_nat (n div 10)) = int (n div 10)"
      by simp
    moreover have "digit_val (digit_char (n mod 10)) = int (n mod 10)"
      by (simp add: digit_char_props)
    moreover have "int (n div 10) * 10 + int (n mod 10) = int n"
      by (metis mult.commute of_nat_add of_nat_mult of_nat_numeral div_mult_mod_eq mult.commute)
    ultimately show ?thesis using False
      by (subst str_nat.simps) simp
  qed
qed

lemma filter_digits: "list_all is_digit ds \<Longrightarrow> filter is_digit ds = ds"
  by (simp add: list_all_iff)

lemma int_literal_digits:
  assumes "digits ds" and "length ds \<le> max_str_digits"
  shows "int_literal ds = Some (foldl (\<lambda>a c. a * 10 + digit_val c) 0 ds)"
proof -
  from assms(1) obtain c cs where ds: "ds = c # cs" and c: "is_digit c"
      and cs: "list_all is_digit cs"
    by (cases ds) (simp_all add: digits_def)
  have f: "filter is_digit ds = ds" using assms(1) by (simp add: digits_def filter_digits)
  have "int_literal ds = int_digits (digit_val c) cs"
    using assms(2) c unfolding int_literal_def f by (simp add: ds)
  then show ?thesis using cs by (simp add: ds int_digits_foldl)
qed

lemma int_literal_too_long:
  assumes "digits ds" and "max_str_digits < length ds"
  shows "int_literal ds = None"
proof -
  have f: "filter is_digit ds = ds" using assms(1) by (simp add: digits_def filter_digits)
  show ?thesis using assms(2) unfolding int_literal_def f by simp
qed

lemma dropWhile_id: "xs \<noteq> [] \<Longrightarrow> \<not> P (hd xs) \<Longrightarrow> dropWhile P xs = xs"
  by (cases xs) simp_all

lemma strip_digits:
  assumes "digits ds"
  shows "strip ds = ds"
proof -
  from assms have ne: "ds \<noteq> []" and all: "\<forall>c \<in> set ds. is_digit c"
    by (simp_all add: digits_def list_all_iff)
  have "\<not> is_space (hd ds)" using ne all by (simp add: digit_plain)
  then have a: "dropWhile is_space ds = ds" using ne by (rule dropWhile_id [rotated])
  have "hd (rev ds) \<in> set ds" using ne by (simp add: hd_rev)
  then have "\<not> is_space (hd (rev ds))" using all by (simp add: digit_plain)
  then have b: "dropWhile is_space (rev ds) = rev ds" using ne by (simp add: dropWhile_id)
  show ?thesis by (simp add: strip_def a b)
qed

lemma upper_digits: "digits ds \<Longrightarrow> upper ds = ds"
  by (simp add: digits_def upper_def list_all_iff digit_plain map_idI)

lemma py_int_int_literal:
  assumes "digits ds"
  shows "py_int ds = int_literal ds"
proof -
  from assms obtain c cs where ds: "ds = c # cs" and c: "is_digit c"
    by (cases ds) (simp_all add: digits_def)
  have "strip (c # cs) = c # cs"
    using strip_digits [OF assms] ds by simp
  then show ?thesis
    using c by (simp add: py_int_def ds digit_plain)
qed

text \<open>\<^verbatim>\<open>int(str(n)) == n\<close> for a natural number of at most 4300 digits, and the
  \<^verbatim>\<open>ValueError\<close> beyond.\<close>

lemma py_int_py_str:
  assumes "0 \<le> n" and "length (py_str n) \<le> max_str_digits"
  shows "py_int (py_str n) = Some n"
proof -
  have s: "py_str n = str_nat (nat n)" using assms(1) by (simp add: py_str_def)
  have "py_int (str_nat (nat n)) = int_literal (str_nat (nat n))"
    by (rule py_int_int_literal [OF digits_str_nat])
  also have "\<dots> = Some (foldl (\<lambda>a c. a * 10 + digit_val c) 0 (str_nat (nat n)))"
    using assms(2) by (intro int_literal_digits digits_str_nat) (simp add: s)
  also have "\<dots> = Some n" using assms(1) by (simp add: foldl_str_nat)
  finally show ?thesis by (simp add: s)
qed

lemma py_int_py_str_too_long:
  assumes "0 \<le> n" and "max_str_digits < length (py_str n)"
  shows "py_int (py_str n) = None"
proof -
  have s: "py_str n = str_nat (nat n)" using assms(1) by (simp add: py_str_def)
  have "py_int (str_nat (nat n)) = int_literal (str_nat (nat n))"
    by (rule py_int_int_literal [OF digits_str_nat])
  also have "\<dots> = None"
    using assms(2) by (intro int_literal_too_long digits_str_nat) (simp add: s)
  finally show ?thesis by (simp add: s)
qed

lemma length_str_nat_gt: "10 ^ k \<le> m \<Longrightarrow> k < length (str_nat m)"
proof (induction k arbitrary: m)
  case 0
  have "str_nat m \<noteq> []" using digits_str_nat [of m] by (simp add: digits_def)
  then show ?case by simp
next
  case (Suc k)
  then have m: "10 \<le> m" and d: "10 ^ k \<le> m div 10"
    by (simp_all add: less_eq_div_iff_mult_less_eq mult.commute order_trans [OF _ Suc.prems])
  from Suc.IH [OF d] have "k < length (str_nat (m div 10))" .
  then show ?case using m by (subst str_nat.simps) simp
qed

lemma py_replace_digits: "list_all is_digit ds \<Longrightarrow> py_replace ''RRULE:'' [] ds = ds"
  by (induction ds) (simp_all add: digit_plain)

lemma split_on_digits: "list_all is_digit ds \<Longrightarrow> split_on CHR '';'' ds = [ds]"
  by (induction ds) (simp_all add: digit_plain)

lemma key_plain:
  "upper (strip ''FREQ'') = ''FREQ''" "upper (strip ''INTERVAL'') = ''INTERVAL''"
  "upper (strip ''SECONDLY'') = ''SECONDLY''" "upper (strip ''MINUTELY'') = ''MINUTELY''"
  "upper (strip ''HOURLY'') = ''HOURLY''" "upper (strip ''DAILY'') = ''DAILY''"
  "upper (strip ''WEEKLY'') = ''WEEKLY''"
  by (simp_all add: strip_def upper_def upper_char_def is_space_def)

lemma parts_interval_rule:
  assumes "digits ds"
      and "X \<in> {''SECONDLY'', ''MINUTELY'', ''HOURLY'', ''DAILY'', ''WEEKLY''}"
  shows "rrule_parts (''RRULE:FREQ='' @ X @ '';INTERVAL='' @ ds) =
           [''FREQ'' \<mapsto> X, ''INTERVAL'' \<mapsto> ds]"
proof -
  have d: "list_all is_digit ds" using assms(1) by (simp add: digits_def)
  have v: "strip ds = ds" "upper ds = ds"
    using assms(1) by (simp_all add: strip_digits upper_digits)
  from assms(2) show ?thesis
    by (elim insertE emptyE)
       (simp_all add: rrule_parts_def put_part_def py_replace_digits [OF d]
          split_on_digits [OF d] key_plain v)
qed

subsection \<open>Interval rules\<close>

text \<open>Claim C4, as the code has it. For every frequency \<open>X\<close> among \<^verbatim>\<open>SECONDLY\<close>,
  \<^verbatim>\<open>MINUTELY\<close>, \<^verbatim>\<open>HOURLY\<close>, \<^verbatim>\<open>DAILY\<close>, \<^verbatim>\<open>WEEKLY\<close> and every positive
  integer \<open>n\<close> of at most 4300 decimal digits, the rule \<^verbatim>\<open>RRULE:FREQ=X;INTERVAL=n\<close>
  (with \<open>n\<close> in decimal, no \<^verbatim>\<open>BYHOUR\<close>, \<^verbatim>\<open>BYMINUTE\<close> or \<^verbatim>\<open>BYDAY\<close>) is parsed
  to the keyword dictionary of an interval of exactly \<open>n\<close> units of \<open>X\<close>.\<close>

theorem interval_rule_resolves_exactly:
  assumes "(X, u) \<in> set [(''SECONDLY'', Seconds), (''MINUTELY'', Minutes), (''HOURLY'', Hours),
                          (''DAILY'', Days), (''WEEKLY'', Weeks)]"
      and "0 < n"
      and "length (py_str n) \<le> 4300"
  shows "parse_rrule_to_interval_kwargs L (''RRULE:FREQ='' @ X @ '';INTERVAL='' @ py_str n) =
           Some (KwInterval u n)"
proof -
  have dg: "digits (py_str n)" using assms(2) by (simp add: py_str_def digits_str_nat)
  have X: "X \<in> {''SECONDLY'', ''MINUTELY'', ''HOURLY'', ''DAILY'', ''WEEKLY''}"
    using assms(1) by auto
  have parts: "rrule_parts (''RRULE:FREQ='' @ X @ '';INTERVAL='' @ py_str n) =
           [''FREQ'' \<mapsto> X, ''INTERVAL'' \<mapsto> py_str n]"
    by (rule parts_interval_rule [OF dg X])
  have i: "py_int (py_str n) = Some n"
    using assms(2,3) by (intro py_int_py_str) (simp_all add: max_str_digits_def)
  have m: "mapping_get X n = Some (KwInterval u n)"
    using assms(1) by (auto simp: mapping_get_def)
  have "parse_rrule_body L (''RRULE:FREQ='' @ X @ '';INTERVAL='' @ py_str n) =
          Inr (Some (KwInterval u n))"
    unfolding parse_rrule_body_def parts by (simp add: i m truthy_def)
  then show ?thesis
    by (simp add: parse_rrule_to_interval_kwargs_def)
qed

theorem interval_rule_resolves_exactly_witness:
  "(''DAILY'', Days) \<in> set [(''SECONDLY'', Seconds), (''MINUTELY'', Minutes), (''HOURLY'', Hours),
                          (''DAILY'', Days), (''WEEKLY'', Weeks)] \<and> (0::int) < 12 \<and>
   length (py_str 12) \<le> 4300 \<and>
   parse_rrule_to_interval_kwargs sample_lib ''RRULE:FREQ=DAILY;INTERVAL=12'' =
     Some (KwInterval Days 12)"
proof -
  have h1: "(''DAILY'', Days) \<in> set [(''SECONDLY'', Seconds), (''MINUTELY'', Minutes),
              (''HOURLY'', Hours), (''DAILY'', Days), (''WEEKLY'', Weeks)]" by simp
  have h2: "(0::int) < 12" by simp
  have s: "py_str 12 = ''12''" by (simp add: py_str_def str_nat.simps digit_char_def)
  have h3: "length (py_str 12) \<le> 4300" by (simp add: s)
  show ?thesis
    using h1 h2 h3 interval_rule_resolves_exactly [OF h1 h2 h3, of sample_lib]
    by (simp add: s)
qed

text \<open>An interval of more than 4300 digits is refused by \<^verbatim>\<open>int\<close>, and the parser
  returns \<^verbatim>\<open>None\<close>.\<close>

lemma interval_rule_too_long:
  assumes "X \<in> {''SECONDLY'', ''MINUTELY'', ''HOURLY'', ''DAILY'', ''WEEKLY''}"
      and "0 \<le> n"
      and "max_str_digits < length (py_str n)"
  shows "parse_rrule_to_interval_kwargs L (''RRULE:FREQ='' @ X @ '';INTERVAL='' @ py_str n) = None"
proof -
  have dg: "digits (py_str n)" using assms(2) by (simp add: py_str_def digits_str_nat)
  have parts: "rrule_parts (''RRULE:FREQ='' @ X @ '';INTERVAL='' @ py_str n) =
           [''FREQ'' \<mapsto> X, ''INTERVAL'' \<mapsto> py_str n]"
    by (rule parts_interval_rule [OF dg assms(1)])
  have i: "py_int (py_str n) = None" by (rule py_int_py_str_too_long [OF assms(2,3)])
  have "parse_rrule_body L (''RRULE:FREQ='' @ X @ '';INTERVAL='' @ py_str n) = Inl ValueError"
    unfolding parse_rrule_body_def parts by (simp add: i)
  then show ?thesis
    by (simp add: parse_rrule_to_interval_kwargs_def)
qed

lemma length_py_str_power: "k < length (py_str (10 ^ k))"
proof -
  have n: "nat ((10::int) ^ k) = (10::nat) ^ k" by (simp add: nat_power_eq)
  have p: "py_str (10 ^ k) = str_nat (nat (10 ^ k))" by (simp add: py_str_def)
  show ?thesis unfolding p n by (rule length_str_nat_gt [OF order_refl])
qed

text \<open>The claim as the specification words it fails at the positive integer
  \<open>10 ^ 4300\<close>, which has 4301 digits.\<close>

theorem interval_of_4301_digits_counterexample:
  "(0::int) < 10 ^ 4300 \<and>
   parse_rrule_to_interval_kwargs sample_lib
     (''RRULE:FREQ='' @ ''DAILY'' @ '';INTERVAL='' @ py_str (10 ^ 4300)) = None"
proof
  show "(0::int) < 10 ^ 4300" by (rule zero_less_power) simp
  have x: "''DAILY'' \<in> {''SECONDLY'', ''MINUTELY'', ''HOURLY'', ''DAILY'', ''WEEKLY''}" by simp
  have n: "(0::int) \<le> 10 ^ 4300" by (rule zero_le_power) simp
  have l: "max_str_digits < length (py_str (10 ^ 4300))"
    unfolding max_str_digits_def by (rule length_py_str_power)
  show "parse_rrule_to_interval_kwargs sample_lib
     (''RRULE:FREQ='' @ ''DAILY'' @ '';INTERVAL='' @ py_str (10 ^ 4300)) = None"
    by (rule interval_rule_too_long [OF x n l])
qed

subsection \<open>Rules with a time of day or a day of week\<close>

text \<open>Claim C5, as the code has it. A rule whose parts carry a non-empty \<^verbatim>\<open>BYHOUR\<close>,
  \<^verbatim>\<open>BYMINUTE\<close> or \<^verbatim>\<open>BYDAY\<close> is never resolved to an interval, neither by the parser
  nor in the job that \<^verbatim>\<open>schedule_job_for_task\<close> installs. When the rule begins with
  \<^verbatim>\<open>RRULE:\<close>, its \<^verbatim>\<open>INTERVAL\<close> (if there is one), \<^verbatim>\<open>BYHOUR\<close> and \<^verbatim>\<open>BYMINUTE\<close>
  are integer literals and the constructor accepts the three fields, it is resolved to
  a \<^verbatim>\<open>CronTrigger\<close>, with hour 9, minute 0 and day of week \<^verbatim>\<open>*\<close> for the
  qualifiers that are absent, and that trigger is installed when the rule does not
  contain \<^verbatim>\<open>FREQ=ONCE\<close>. When the rule does not begin with \<^verbatim>\<open>RRULE:\<close> or one of
  those three values is no integer literal, the parser returns \<^verbatim>\<open>None\<close> and the
  one-shot \<^verbatim>\<open>DateTrigger\<close> at the clock reading plus sixty seconds is installed.\<close>

theorem by_qualifiers_give_cron_or_fallback:
  assumes "truthy (rrule_parts rule ''BYHOUR'') \<or> truthy (rrule_parts rule ''BYMINUTE'') \<or>
           truthy (rrule_parts rule ''BYDAY'')"
  shows "(\<forall>u n. parse_rrule_to_interval_kwargs L rule \<noteq> Some (KwInterval u n)) \<and>
         (\<forall>ok jobs' j u n.
            schedule_job_for_task L now task_id params rule jobs = Inr (ok, jobs') \<longrightarrow>
            j \<in> set (live_jobs (reminder_id task_id) jobs') \<longrightarrow>
            trigger j \<noteq> IntervalTrigger u n) \<and>
         (prefix ''RRULE:'' rule \<and>
          (case rrule_parts rule ''INTERVAL'' of None \<Rightarrow> True | Some v \<Rightarrow> py_int v \<noteq> None) \<and>
          (if truthy (rrule_parts rule ''BYHOUR'') then py_int (the (rrule_parts rule ''BYHOUR''))
           else Some 9) = Some hour \<and>
          (if truthy (rrule_parts rule ''BYMINUTE'') then py_int (the (rrule_parts rule ''BYMINUTE''))
           else Some 0) = Some minute \<and>
          (if truthy (rrule_parts rule ''BYDAY'') then the (rrule_parts rule ''BYDAY'') else ''*'')
            = day_of_week \<and>
          cron_accepts L day_of_week hour minute
          \<longrightarrow> parse_rrule_to_interval_kwargs L rule = Some (KwCron day_of_week hour minute) \<and>
              (\<not> contains ''FREQ=ONCE'' rule \<longrightarrow>
                 schedule_job_for_task L now task_id params rule jobs =
                   Inr (True, filter (\<lambda>j. job_id j \<noteq> reminder_id task_id) jobs @
                          [\<lparr>job_id = reminder_id task_id,
                            trigger = CronTrigger day_of_week hour minute, payload = params\<rparr>]))) \<and>
         (\<not> prefix ''RRULE:'' rule \<or>
          (case rrule_parts rule ''INTERVAL'' of None \<Rightarrow> False | Some v \<Rightarrow> py_int v = None) \<or>
          (truthy (rrule_parts rule ''BYHOUR'') \<and> py_int (the (rrule_parts rule ''BYHOUR'')) = None) \<or>
          (truthy (rrule_parts rule ''BYMINUTE'') \<and>
             py_int (the (rrule_parts rule ''BYMINUTE'')) = None)
          \<longrightarrow> parse_rrule_to_interval_kwargs L rule = None \<and>
              schedule_job_for_task L now task_id params rule jobs =
                Inr (True, filter (\<lambda>j. job_id j \<noteq> reminder_id task_id) jobs @
                       [\<lparr>job_id = reminder_id task_id, trigger = DateTrigger (now + 60),
                         payload = params\<rparr>]))"
proof -
  have ni: "parse_rrule_to_interval_kwargs L rule \<noteq> Some (KwInterval u n)" for u n
    using assms
    by (auto simp: parse_rrule_to_interval_kwargs_def parse_rrule_body_def Let_def
        split: option.splits if_splits sum.splits)
  have sched: "trigger j \<noteq> IntervalTrigger u n"
    if "schedule_job_for_task L now task_id params rule jobs = Inr (ok, jobs')"
      and "j \<in> set (live_jobs (reminder_id task_id) jobs')" for ok jobs' j u n
    using that ni
    by (auto simp: schedule_job_for_task_eq Let_def live_jobs_fresh live_jobs_rest
        split: if_splits option.splits kwargs.splits)
  have cron: "parse_rrule_to_interval_kwargs L rule = Some (KwCron day_of_week hour minute) \<and>
              (\<not> contains ''FREQ=ONCE'' rule \<longrightarrow>
                 schedule_job_for_task L now task_id params rule jobs =
                   Inr (True, filter (\<lambda>j. job_id j \<noteq> reminder_id task_id) jobs @
                          [\<lparr>job_id = reminder_id task_id,
                            trigger = CronTrigger day_of_week hour minute, payload = params\<rparr>]))"
    if a: "prefix ''RRULE:'' rule \<and>
          (case rrule_parts rule ''INTERVAL'' of None \<Rightarrow> True | Some v \<Rightarrow> py_int v \<noteq> None) \<and>
          (if truthy (rrule_parts rule ''BYHOUR'') then py_int (the (rrule_parts rule ''BYHOUR''))
           else Some 9) = Some hour \<and>
          (if truthy (rrule_parts rule ''BYMINUTE'') then py_int (the (rrule_parts rule ''BYMINUTE''))
           else Some 0) = Some minute \<and>
          (if truthy (rrule_parts rule ''BYDAY'') then the (rrule_parts rule ''BYDAY'') else ''*'')
            = day_of_week \<and>
          cron_accepts L day_of_week hour minute"
  proof -
    from a have ne: "rule \<noteq> []" by auto
    obtain i where i: "(case rrule_parts rule ''INTERVAL'' of None \<Rightarrow> Some 1 | Some v \<Rightarrow> py_int v) = Some i"
      using a by (auto split: option.splits)
    have "parse_rrule_body L rule = Inr (Some (KwCron day_of_week hour minute))"
      using a assms i unfolding parse_rrule_body_def Let_def by simp
    with a ne have p: "parse_rrule_to_interval_kwargs L rule = Some (KwCron day_of_week hour minute)"
      by (simp add: parse_rrule_to_interval_kwargs_def)
    then show ?thesis by (simp add: schedule_job_for_task_eq Let_def)
  qed
  have bad: "parse_rrule_to_interval_kwargs L rule = None \<and>
              schedule_job_for_task L now task_id params rule jobs =
                Inr (True, filter (\<lambda>j. job_id j \<noteq> reminder_id task_id) jobs @
                       [\<lparr>job_id = reminder_id task_id, trigger = DateTrigger (now + 60),
                         payload = params\<rparr>])"
    if b: "\<not> prefix ''RRULE:'' rule \<or>
          (case rrule_parts rule ''INTERVAL'' of None \<Rightarrow> False | Some v \<Rightarrow> py_int v = None) \<or>
          (truthy (rrule_parts rule ''BYHOUR'') \<and> py_int (the (rrule_parts rule ''BYHOUR'')) = None) \<or>
          (truthy (rrule_parts rule ''BYMINUTE'') \<and>
             py_int (the (rrule_parts rule ''BYMINUTE'')) = None)"
  proof -
    have p: "parse_rrule_to_interval_kwargs L rule = None"
    proof (cases "prefix ''RRULE:'' rule")
      case False
      then show ?thesis by (simp add: parse_rrule_to_interval_kwargs_def)
    next
      case True
      have "parse_rrule_body L rule = Inl ValueError"
      proof (cases "case rrule_parts rule ''INTERVAL'' of None \<Rightarrow> Some 1 | Some v \<Rightarrow> py_int v")
        case None
        then show ?thesis unfolding parse_rrule_body_def Let_def by simp
      next
        case (Some i)
        then have "\<not> (case rrule_parts rule ''INTERVAL'' of None \<Rightarrow> False
                       | Some v \<Rightarrow> py_int v = None)"
          by (simp split: option.splits)
        with b True have hm:
          "(truthy (rrule_parts rule ''BYHOUR'') \<and>
              py_int (the (rrule_parts rule ''BYHOUR'')) = None) \<or>
           (truthy (rrule_parts rule ''BYMINUTE'') \<and>
              py_int (the (rrule_parts rule ''BYMINUTE'')) = None)"
          by blast
        show ?thesis
        proof (cases "if truthy (rrule_parts rule ''BYHOUR'')
                      then py_int (the (rrule_parts rule ''BYHOUR'')) else Some 9")
          case None
          then show ?thesis
            using Some assms unfolding parse_rrule_body_def Let_def by simp
        next
          case h: (Some hour)
          with hm have "truthy (rrule_parts rule ''BYMINUTE'')"
            and "py_int (the (rrule_parts rule ''BYMINUTE'')) = None"
            by (auto split: if_splits)
          then show ?thesis
            using Some h assms unfolding parse_rrule_body_def Let_def by simp
        qed
      qed
      then show ?thesis by (simp add: parse_rrule_to_interval_kwargs_def)
    qed
    then show ?thesis by (simp add: schedule_job_for_task_eq Let_def)
  qed
  from ni sched cron bad show ?thesis by blast
qed

theorem by_qualifiers_give_cron_or_fallback_witness:
  "(truthy (rrule_parts ''RRULE:FREQ=DAILY;BYMINUTE=30'' ''BYHOUR'') \<or>
    truthy (rrule_parts ''RRULE:FREQ=DAILY;BYMINUTE=30'' ''BYMINUTE'') \<or>
    truthy (rrule_parts ''RRULE:FREQ=DAILY;BYMINUTE=30'' ''BYDAY'')) \<and>
   prefix ''RRULE:'' ''RRULE:FREQ=DAILY;BYMINUTE=30'' \<and>
   cron_accepts sample_lib ''*'' 9 30 \<and>
   \<not> contains ''FREQ=ONCE'' ''RRULE:FREQ=DAILY;BYMINUTE=30'' \<and>
   parse_rrule_to_interval_kwargs sample_lib ''RRULE:FREQ=DAILY;BYMINUTE=30'' =
     Some (KwCron ''*'' 9 30) \<and>
   schedule_job_for_task sample_lib 1000 7 ''hello'' ''RRULE:FREQ=DAILY;BYMINUTE=30'' [] =
     Inr (True, [\<lparr>job_id = ''reminder-7'', trigger = CronTrigger ''*'' 9 30, payload = ''hello''\<rparr>])"
proof -
  have p: "rrule_parts ''RRULE:FREQ=DAILY;BYMINUTE=30'' =
             [''FREQ'' \<mapsto> ''DAILY'', ''BYMINUTE'' \<mapsto> ''30'']"
    by (simp add: parse_eval)
  have h: "truthy (rrule_parts ''RRULE:FREQ=DAILY;BYMINUTE=30'' ''BYHOUR'') \<or>
    truthy (rrule_parts ''RRULE:FREQ=DAILY;BYMINUTE=30'' ''BYMINUTE'') \<or>
    truthy (rrule_parts ''RRULE:FREQ=DAILY;BYMINUTE=30'' ''BYDAY'')"
    by (simp add: p truthy_def)
  have c: "cron_accepts sample_lib ''*'' 9 30" by (simp add: sample_lib_def)
  have o: "\<not> contains ''FREQ=ONCE'' ''RRULE:FREQ=DAILY;BYMINUTE=30''" by simp
  have i: "py_int ''30'' = Some 30" by (simp add: parse_eval)
  show ?thesis
    using h c o by_qualifiers_give_cron_or_fallback [OF h, of sample_lib 1000 7 "''hello''" "[]"
        9 30 "''*''"]
    by (simp add: p truthy_def i reminder_id_7)
qed

text \<open>The claim as the specification words it fails at \<^verbatim>\<open>RRULE:FREQ=DAILY;BYHOUR=9,17\<close>:
  the rule carries \<^verbatim>\<open>BYHOUR\<close>, \<^verbatim>\<open>int\<close> raises on its value, the parser returns
  \<^verbatim>\<open>None\<close> and the job is the one-shot fallback.\<close>

theorem byhour_list_is_not_cron_counterexample:
  "truthy (rrule_parts ''RRULE:FREQ=DAILY;BYHOUR=9,17'' ''BYHOUR'') \<and>
   parse_rrule_to_interval_kwargs sample_lib ''RRULE:FREQ=DAILY;BYHOUR=9,17'' = None \<and>
   schedule_job_for_task sample_lib 1000 7 ''hello'' ''RRULE:FREQ=DAILY;BYHOUR=9,17'' [] =
     Inr (True, [\<lparr>job_id = ''reminder-7'', trigger = DateTrigger 1060, payload = ''hello''\<rparr>])"
  by (simp add: parse_eval schedule_eval)

text \<open>With the sample instance of the library, the rule that the weekly handler of the
  listener builds, with a two-letter day code, is not a \<^verbatim>\<open>CronTrigger\<close>; with the
  three-letter name it is.\<close>

lemma weekly_rule_with_two_letter_day:
  "schedule_job_for_task sample_lib 1000 7 ''hello''
     ''RRULE:FREQ=WEEKLY;BYDAY=MO;BYHOUR=9;BYMINUTE=0'' [] =
   Inr (True, [\<lparr>job_id = ''reminder-7'', trigger = DateTrigger 1060, payload = ''hello''\<rparr>]) \<and>
   schedule_job_for_task sample_lib 1000 7 ''hello''
     ''RRULE:FREQ=WEEKLY;BYDAY=MON;BYHOUR=9;BYMINUTE=0'' [] =
   Inr (True, [\<lparr>job_id = ''reminder-7'', trigger = CronTrigger ''MON'' 9 0, payload = ''hello''\<rparr>])"
  by (simp add: parse_eval schedule_eval)

subsection \<open>Restoring the saved tasks\<close>

text \<open>The rendering of an integer determines the integer, so distinct task ids have
  distinct job ids.\<close>

lemma str_nat_inj: "str_nat a = str_nat b \<Longrightarrow> a = b"
  by (metis foldl_str_nat of_nat_eq_iff)

lemma str_nat_no_sign: "str_nat m \<noteq> CHR ''-'' # cs"
proof
  assume a: "str_nat m = CHR ''-'' # cs"
  have "digits (str_nat m)" by (rule digits_str_nat)
  then have "is_digit CHR ''-''" by (simp add: a digits_def)
  then show False by (simp add: is_digit_def)
qed

lemma py_str_inj: "py_str a = py_str b \<Longrightarrow> a = b"
proof -
  assume e: "py_str a = py_str b"
  consider "a < 0" "b < 0" | "a < 0" "0 \<le> b" | "0 \<le> a" "b < 0" | "0 \<le> a" "0 \<le> b"
    by linarith
  then show ?thesis
  proof cases
    case 1
    with e have "str_nat (nat (- a)) = str_nat (nat (- b))" by (simp add: py_str_def)
    then have "nat (- a) = nat (- b)" by (rule str_nat_inj)
    with 1 show ?thesis by simp
  next
    case 2
    with e have "str_nat (nat b) = CHR ''-'' # str_nat (nat (- a))" by (simp add: py_str_def)
    then show ?thesis by (simp add: str_nat_no_sign)
  next
    case 3
    with e have "str_nat (nat a) = CHR ''-'' # str_nat (nat (- b))" by (simp add: py_str_def)
    then show ?thesis by (simp add: str_nat_no_sign)
  next
    case 4
    with e have "str_nat (nat a) = str_nat (nat b)" by (simp add: py_str_def)
    then have "nat a = nat b" by (rule str_nat_inj)
    with 4 show ?thesis by simp
  qed
qed

lemma reminder_id_inj: "reminder_id a = reminder_id b \<longleftrightarrow> a = b"
  by (auto simp: reminder_id_def dest: py_str_inj)

lemma schedule_accepted:
  assumes "\<forall>u n. parse_rrule_to_interval_kwargs L rule = Some (KwInterval u n) \<longrightarrow>
             interval_accepts L u n"
  shows "\<exists>t. schedule_job_for_task L now task_id params rule jobs =
           Inr (True, filter (\<lambda>j. job_id j \<noteq> reminder_id task_id) jobs @
                        [\<lparr>job_id = reminder_id task_id, trigger = t, payload = params\<rparr>])"
  using assms
  by (auto simp: schedule_job_for_task_eq Let_def split: option.splits kwargs.splits)

lemma restore_rows_ids:
  assumes "distinct (map row_id rows)"
      and "\<forall>r \<in> set rows. reminder_id (row_id r) \<notin> set (map job_id jobs)"
      and "\<forall>r \<in> set rows. \<forall>u n.
             parse_rrule_to_interval_kwargs L (row_rule r) = Some (KwInterval u n) \<longrightarrow>
             interval_accepts L u n"
  shows "map job_id (snd (restore_rows L loads clock i rows jobs)) =
           map job_id jobs @
           map (\<lambda>r. reminder_id (row_id r)) (takeWhile (\<lambda>r. load_params loads r \<noteq> None) rows)"
  using assms
proof (induction rows arbitrary: i jobs)
  case Nil
  then show ?case by simp
next
  case (Cons r rs)
  show ?case
  proof (cases "load_params loads r")
    case None
    then show ?thesis by simp
  next
    case (Some params)
    have acc: "\<forall>u n. parse_rrule_to_interval_kwargs L (row_rule r) = Some (KwInterval u n) \<longrightarrow>
             interval_accepts L u n"
      using Cons.prems(3) by simp
    have fresh: "filter (\<lambda>j. job_id j \<noteq> reminder_id (row_id r)) jobs = jobs"
      using Cons.prems(2) by (fastforce simp: filter_id_conv image_iff)
    from schedule_accepted [OF acc, of "clock i" "row_id r" params jobs] fresh
    obtain t where s: "schedule_job_for_task L (clock i) (row_id r) params (row_rule r) jobs =
        Inr (True, jobs @ [\<lparr>job_id = reminder_id (row_id r), trigger = t, payload = params\<rparr>])"
      by auto
    let ?jobs' = "jobs @ [\<lparr>job_id = reminder_id (row_id r), trigger = t, payload = params\<rparr>]"
    have d: "distinct (map row_id rs)" using Cons.prems(1) by simp
    have f: "\<forall>x \<in> set rs. reminder_id (row_id x) \<notin> set (map job_id ?jobs')"
      using Cons.prems(1,2) by (fastforce simp: reminder_id_inj image_iff)
    have a: "\<forall>x \<in> set rs. \<forall>u n.
             parse_rrule_to_interval_kwargs L (row_rule x) = Some (KwInterval u n) \<longrightarrow>
             interval_accepts L u n"
      using Cons.prems(3) by simp
    from Cons.IH [OF d f a, of "Suc i"] Some s show ?thesis by simp
  qed
qed

lemmas restore_eval = restore_saved_reminders_from_db_def load_params_def row_rule_def
  sample_loads_def sample_clock_def

text \<open>Claim C2, as the code has it. For rows with distinct ids whose resolved intervals
  the library accepts, and a store that is empty at the start,
  \<^verbatim>\<open>restore_saved_reminders_from_db\<close> leaves exactly one job for every row in front
  of the first row whose \<^verbatim>\<open>params_json\<close> does not decode, and none for that row and
  the rows behind it: with no malformed row among \<open>N\<close> there are \<open>N\<close> jobs, with a
  malformed row at position \<open>k\<close> (counted from 0) there are \<open>k\<close>.\<close>

theorem restore_stops_at_first_malformed:
  assumes "distinct (map row_id rows)"
      and "\<forall>r \<in> set rows. \<forall>u n.
             parse_rrule_to_interval_kwargs L (row_rule r) = Some (KwInterval u n) \<longrightarrow>
             interval_accepts L u n"
  shows "map job_id (restore_saved_reminders_from_db L loads clock rows []) =
           map (\<lambda>r. reminder_id (row_id r))
             (takeWhile (\<lambda>r. load_params loads r \<noteq> None) rows) \<and>
         distinct (map job_id (restore_saved_reminders_from_db L loads clock rows [])) \<and>
         length (restore_saved_reminders_from_db L loads clock rows []) =
           length (takeWhile (\<lambda>r. load_params loads r \<noteq> None) rows)"
proof -
  let ?good = "takeWhile (\<lambda>r. load_params loads r \<noteq> None) rows"
  let ?res = "restore_saved_reminders_from_db L loads clock rows []"
  have ids: "map job_id ?res = map (\<lambda>r. reminder_id (row_id r)) ?good"
    unfolding restore_saved_reminders_from_db_def
    using restore_rows_ids [OF assms(1) _ assms(2), of "[]" loads clock 0] by simp
  have "map row_id ?good = take (length ?good) (map row_id rows)"
    by (metis takeWhile_eq_take take_map)
  then have "distinct (map row_id ?good)"
    using assms(1) by (simp add: distinct_take)
  then have "distinct (map reminder_id (map row_id ?good))"
    by (simp add: distinct_map inj_on_def reminder_id_inj)
  then have d: "distinct (map job_id ?res)"
    by (simp add: ids comp_def)
  have "length (map job_id ?res) = length ?good"
    by (simp only: ids length_map)
  then have l: "length ?res = length ?good" by simp
  from ids d l show ?thesis by blast
qed

theorem restore_stops_at_first_malformed_witness:
  "distinct (map row_id
     [\<lparr>row_id = 1, params_json = Text ''{}'', schedule_rule = Some ''RRULE:FREQ=HOURLY;INTERVAL=1''\<rparr>,
      \<lparr>row_id = 2, params_json = Text ''{broken'', schedule_rule = Some ''RRULE:FREQ=DAILY;INTERVAL=1''\<rparr>,
      \<lparr>row_id = 3, params_json = Text ''{}'', schedule_rule = None\<rparr>]) \<and>
   map job_id (restore_saved_reminders_from_db sample_lib sample_loads sample_clock
     [\<lparr>row_id = 1, params_json = Text ''{}'', schedule_rule = Some ''RRULE:FREQ=HOURLY;INTERVAL=1''\<rparr>,
      \<lparr>row_id = 2, params_json = Text ''{broken'', schedule_rule = Some ''RRULE:FREQ=DAILY;INTERVAL=1''\<rparr>,
      \<lparr>row_id = 3, params_json = Text ''{}'', schedule_rule = None\<rparr>] []) = [''reminder-1''] \<and>
   length (restore_saved_reminders_from_db sample_lib sample_loads sample_clock
     [\<lparr>row_id = 1, params_json = Text ''{}'', schedule_rule = Some ''RRULE:FREQ=HOURLY;INTERVAL=1''\<rparr>,
      \<lparr>row_id = 2, params_json = Text ''{broken'', schedule_rule = Some ''RRULE:FREQ=DAILY;INTERVAL=1''\<rparr>,
      \<lparr>row_id = 3, params_json = Text ''{}'', schedule_rule = None\<rparr>] []) = 1"
proof -
  let ?rows = "[\<lparr>row_id = 1, params_json = Text ''{}'', schedule_rule = Some ''RRULE:FREQ=HOURLY;INTERVAL=1''\<rparr>,
      \<lparr>row_id = 2, params_json = Text ''{broken'', schedule_rule = Some ''RRULE:FREQ=DAILY;INTERVAL=1''\<rparr>,
      \<lparr>row_id = 3, params_json = Text ''{}'', schedule_rule = None\<rparr>]"
  have h1: "distinct (map row_id ?rows)" by simp
  have h2: "\<forall>r \<in> set ?rows. \<forall>u n.
             parse_rrule_to_interval_kwargs sample_lib (row_rule r) = Some (KwInterval u n) \<longrightarrow>
             interval_accepts sample_lib u n"
    by (simp add: parse_eval row_rule_def sample_lib_def unit_seconds_def)
  show ?thesis
    using h1 restore_stops_at_first_malformed [OF h1 h2, of sample_loads sample_clock]
    by (simp add: load_params_def sample_loads_def reminder_id_def py_str_def str_nat.simps
        digit_char_def)
qed

text \<open>The claim as the specification words it fails for two rows of which the first
  is malformed: no job is restored, not one.\<close>

theorem restore_aborts_after_malformed_counterexample:
  "distinct (map row_id
     [\<lparr>row_id = 1, params_json = Text ''{broken'', schedule_rule = Some ''RRULE:FREQ=HOURLY;INTERVAL=1''\<rparr>,
      \<lparr>row_id = 2, params_json = Text ''{}'', schedule_rule = Some ''RRULE:FREQ=DAILY;INTERVAL=1''\<rparr>]) \<and>
   length (filter (\<lambda>r. load_params sample_loads r = None)
     [\<lparr>row_id = 1, params_json = Text ''{broken'', schedule_rule = Some ''RRULE:FREQ=HOURLY;INTERVAL=1''\<rparr>,
      \<lparr>row_id = 2, params_json = Text ''{}'', schedule_rule = Some ''RRULE:FREQ=DAILY;INTERVAL=1''\<rparr>]) = 1 \<and>
   restore_saved_reminders_from_db sample_lib sample_loads sample_clock
     [\<lparr>row_id = 1, params_json = Text ''{broken'', schedule_rule = Some ''RRULE:FREQ=HOURLY;INTERVAL=1''\<rparr>,
      \<lparr>row_id = 2, params_json = Text ''{}'', schedule_rule = Some ''RRULE:FREQ=DAILY;INTERVAL=1''\<rparr>]
     [] = []"
  by (simp add: restore_eval)

subsection \<open>Misspelt frequencies\<close>

lemmas normalize_eval = normalize_rrule_def strip_def is_space_def match_until_def

text \<open>Claim C1 says that the singular and the plural misspelling of a unit are both
  mapped to the canonical frequency and then parse to the same interval as the
  canonical spelling. The code does so for the singular \<^verbatim>\<open>FREQ=DAY\<close>. For the plural
  \<^verbatim>\<open>FREQ=DAYS\<close> the replacement of \<^verbatim>\<open>FREQ=DAY\<close> comes first and leaves
  \<^verbatim>\<open>FREQ=DAILYS\<close>, which the replacement written for the plural no longer matches and
  the parser does not know.\<close>

theorem plural_misspelling_is_not_normalized:
  "normalize_rrule ''RRULE:FREQ=DAY;INTERVAL=2'' = ''RRULE:FREQ=DAILY;INTERVAL=2'' \<and>
   parse_rrule_to_interval_kwargs sample_lib ''RRULE:FREQ=DAILY;INTERVAL=2'' =
     Some (KwInterval Days 2) \<and>
   normalize_rrule ''RRULE:FREQ=DAYS;INTERVAL=2'' = ''RRULE:FREQ=DAILYS;INTERVAL=2'' \<and>
   parse_rrule_to_interval_kwargs sample_lib (normalize_rrule ''RRULE:FREQ=DAYS;INTERVAL=2'') =
     None"
proof -
  have a: "normalize_rrule ''RRULE:FREQ=DAY;INTERVAL=2'' = ''RRULE:FREQ=DAILY;INTERVAL=2''"
    by (simp add: normalize_eval)
  have b: "parse_rrule_to_interval_kwargs sample_lib ''RRULE:FREQ=DAILY;INTERVAL=2'' =
     Some (KwInterval Days 2)"
    by (simp add: parse_eval)
  have c: "normalize_rrule ''RRULE:FREQ=DAYS;INTERVAL=2'' = ''RRULE:FREQ=DAILYS;INTERVAL=2''"
    by (simp add: normalize_eval)
  have d: "parse_rrule_to_interval_kwargs sample_lib ''RRULE:FREQ=DAILYS;INTERVAL=2'' = None"
    by (simp add: parse_eval)
  from a b c d show ?thesis by simp
qed

text \<open>The same order of replacements appends to the canonical spellings
  \<^verbatim>\<open>MINUTELY\<close> and \<^verbatim>\<open>HOURLY\<close> and misses the plurals of minute and hour.\<close>

lemma canonical_spelling_is_damaged:
  "normalize_rrule ''RRULE:FREQ=MINUTELY;INTERVAL=5'' = ''RRULE:FREQ=MINUTELYLY;INTERVAL=5'' \<and>
   normalize_rrule ''RRULE:FREQ=HOURLY;INTERVAL=5'' = ''RRULE:FREQ=HOURLYLY;INTERVAL=5'' \<and>
   normalize_rrule ''RRULE:FREQ=MINUTES;INTERVAL=5'' = ''RRULE:FREQ=MINUTELYS;INTERVAL=5'' \<and>
   normalize_rrule ''RRULE:FREQ=HOURS;INTERVAL=5'' = ''RRULE:FREQ=HOURLYS;INTERVAL=5''"
  by (simp add: normalize_eval)

subsection \<open>Recovery and registration\<close>

text \<open>Claim C9 says that recovery installs for a stored rule the trigger that the
  registration installed. The registration stores the rule of the plan as it is and
  schedules the normalised rule; recovery schedules the stored rule without
  normalising it. For the rule \<^verbatim>\<open>FREQ=DAILY;INTERVAL=2\<close>, which lacks the prefix, the
  registration installs an interval of two days and recovery the one-shot fallback.\<close>

theorem restore_skips_normalization:
  "persist_task_and_schedule sample_lib 1000 7 ''{}'' (Some ''FREQ=DAILY;INTERVAL=2'') [] =
     (''FREQ=DAILY;INTERVAL=2'',
      Inr (True, [\<lparr>job_id = ''reminder-7'', trigger = IntervalTrigger Days 2,
                    payload = ''{}''\<rparr>])) \<and>
   restore_saved_reminders_from_db sample_lib sample_loads sample_clock
     [\<lparr>row_id = 7, params_json = Text ''{}'', schedule_rule = Some ''FREQ=DAILY;INTERVAL=2''\<rparr>] [] =
     [\<lparr>job_id = ''reminder-7'', trigger = DateTrigger 1060, payload = ''{}''\<rparr>]"
proof -
  have n: "normalize_rrule ''FREQ=DAILY;INTERVAL=2'' = ''RRULE:FREQ=DAILY;INTERVAL=2''"
    by (simp add: normalize_eval)
  have a: "persist_task_and_schedule sample_lib 1000 7 ''{}'' (Some ''FREQ=DAILY;INTERVAL=2'') [] =
     (''FREQ=DAILY;INTERVAL=2'',
      Inr (True, [\<lparr>job_id = ''reminder-7'', trigger = IntervalTrigger Days 2,
                    payload = ''{}''\<rparr>]))"
    by (simp add: persist_task_and_schedule_def n parse_eval schedule_eval)
  have b: "restore_saved_reminders_from_db sample_lib sample_loads sample_clock
     [\<lparr>row_id = 7, params_json = Text ''{}'', schedule_rule = Some ''FREQ=DAILY;INTERVAL=2''\<rparr>] [] =
     [\<lparr>job_id = ''reminder-7'', trigger = DateTrigger 1060, payload = ''{}''\<rparr>]"
    by (simp add: restore_eval parse_eval schedule_eval)
  from a b show ?thesis by simp
qed

end
